theory Spec2Isabelle
  imports Main
begin

section \<open>Python values used by the backend\<close>

text \<open>
  A Python \<open>str\<close> is modelled as a \<open>string\<close>; a character stands for the code point
  with the same number (U+0000 to U+00FF).  Python integers are unbounded, hence \<open>int\<close>.
\<close>

subsection \<open>Formatting an integer inside an f-string\<close>

definition digit_char :: "nat \<Rightarrow> char" where
  "digit_char d = ''0123456789'' ! d"

fun str_nat :: "nat \<Rightarrow> string" where
  "str_nat n =
     (if n < 10 then [digit_char n]
      else str_nat (n div 10) @ [digit_char (n mod 10)])"

declare str_nat.simps [simp del]

definition str_int :: "int \<Rightarrow> string" where
  "str_int i = (if i < 0 then CHR ''-'' # str_nat (nat (- i)) else str_nat (nat i))"

subsection \<open>Character classes\<close>

text \<open>
  The classes are those of \<open>str.isspace\<close>, of \<open>str.isalnum\<close> and of the simple case
  mappings, read off for the code points below 256.  Case folding is needed for the
  letters A to Z only: no pattern of the program contains another letter, and no other
  code point below 256 folds to one of them.
\<close>

definition code :: "char \<Rightarrow> nat" where
  "code c = of_char c"

definition newline :: char where
  "newline = CHR 0x0A"

definition is_space :: "char \<Rightarrow> bool" where
  "is_space c =
     (let n = code c
      in (9 \<le> n \<and> n \<le> 13) \<or> (28 \<le> n \<and> n \<le> 32) \<or> n = 133 \<or> n = 160)"

definition is_alnum :: "char \<Rightarrow> bool" where
  "is_alnum c =
     (let n = code c
      in (48 \<le> n \<and> n \<le> 57) \<or> (65 \<le> n \<and> n \<le> 90) \<or> (97 \<le> n \<and> n \<le> 122) \<or>
         n = 170 \<or> n = 178 \<or> n = 179 \<or> n = 181 \<or> n = 185 \<or> n = 186 \<or>
         (188 \<le> n \<and> n \<le> 190) \<or> (192 \<le> n \<and> n \<le> 214) \<or>
         (216 \<le> n \<and> n \<le> 246) \<or> (248 \<le> n \<and> n \<le> 255))"

definition is_word :: "char \<Rightarrow> bool" where
  "is_word c = (is_alnum c \<or> c = CHR ''_'')"

definition to_lower :: "char \<Rightarrow> char" where
  "to_lower c = (if 65 \<le> code c \<and> code c \<le> 90 then char_of (code c + 32) else c)"

definition to_upper :: "char \<Rightarrow> char" where
  "to_upper c = (if 97 \<le> code c \<and> code c \<le> 122 then char_of (code c - 32) else c)"

subsection \<open>\<open>str.strip()\<close> and \<open>str.split(sep)\<close>\<close>

definition strip :: "string \<Rightarrow> string" where
  "strip s = rev (dropWhile is_space (rev (dropWhile is_space s)))"

fun split :: "char \<Rightarrow> string \<Rightarrow> string list" where
  "split sep [] = [[]]"
| "split sep (c # cs) =
     (if c = sep then [] # split sep cs
      else case split sep cs of x # xs \<Rightarrow> (c # x) # xs | [] \<Rightarrow> [[c]])"

subsection \<open>Parsed JSON and the operations the code applies to it\<close>

text \<open>
  A parsed JSON document.  An object is the list of its entries, each key once.  Of a
  number the code only ever asks whether it is zero, so integers suffice.
\<close>

datatype json =
    JNull
  | JBool bool
  | JNum int
  | JStr string
  | JArr "json list"
  | JObj "(string \<times> json) list"

text \<open>
  The exceptions the interpreter raises on these values.  \<open>TypeError\<close> and
  \<open>AttributeError\<close> record the operation and the offending value.
\<close>

datatype py_error =
    KeyError string
  | IndexError
  | TypeError string json
  | AttributeError string json

fun truthy :: "json \<Rightarrow> bool" where
  "truthy JNull = False"
| "truthy (JBool b) = b"
| "truthy (JNum n) = (n \<noteq> 0)"
| "truthy (JStr s) = (s \<noteq> [])"
| "truthy (JArr xs) = (xs \<noteq> [])"
| "truthy (JObj kvs) = (kvs \<noteq> [])"

fun starts_with :: "string \<Rightarrow> string \<Rightarrow> bool" where
  "starts_with [] s = True"
| "starts_with (x # xs) [] = False"
| "starts_with (x # xs) (y # ys) = (x = y \<and> starts_with xs ys)"

fun is_substring :: "string \<Rightarrow> string \<Rightarrow> bool" where
  "is_substring k [] = (k = [])"
| "is_substring k (c # cs) = (starts_with k (c # cs) \<or> is_substring k cs)"

text \<open>\<open>k in v\<close> for a string \<open>k\<close>: key of a dict, element of a list, substring of a str.\<close>

fun contains :: "string \<Rightarrow> json \<Rightarrow> py_error + bool" where
  "contains k (JObj kvs) = Inr (map_of kvs k \<noteq> None)"
| "contains k (JArr xs) = Inr (List.member xs (JStr k))"
| "contains k (JStr s) = Inr (is_substring k s)"
| "contains k v = Inl (TypeError ''in'' v)"

text \<open>\<open>v[k]\<close> for a string \<open>k\<close>, and \<open>v[0]\<close>.\<close>

fun getitem :: "json \<Rightarrow> string \<Rightarrow> py_error + json" where
  "getitem (JObj kvs) k = (case map_of kvs k of Some v \<Rightarrow> Inr v | None \<Rightarrow> Inl (KeyError k))"
| "getitem v k = Inl (TypeError ''getitem'' v)"

fun getitem0 :: "json \<Rightarrow> py_error + json" where
  "getitem0 (JArr []) = Inl IndexError"
| "getitem0 (JArr (x # xs)) = Inr x"
| "getitem0 (JStr []) = Inl IndexError"
| "getitem0 (JStr (c # cs)) = Inr (JStr [c])"
| "getitem0 (JObj kvs) = Inl (KeyError ''0'')"
| "getitem0 v = Inl (TypeError ''getitem'' v)"

section \<open>The regular expressions of the \<open>re\<close> module that the code uses\<close>

text \<open>
  Every pattern in the source is a sequence of items: a single character (a literal, a
  set such as \<^verbatim>\<open>[sq]\<close>, a range such as \<^verbatim>\<open>[a-z]\<close>, white space
  \<^verbatim>\<open>\s\<close>, or the dot), a word boundary \<^verbatim>\<open>\b\<close>, the anchors
  \<^verbatim>\<open>^\<close> and \<^verbatim>\<open>$\<close>, or a single character under \<^verbatim>\<open>*\<close>,
  \<^verbatim>\<open>+\<close> or the lazy \<^verbatim>\<open>*?\<close>.
\<close>

datatype atom = Ch char | OneOf "char list" | Range char char | Whitespace | AnyChar

datatype item = Atom atom | WordBoundary | Bos | Eos | Star atom | Plus atom | LazyStar atom

fun in_atom :: "atom \<Rightarrow> char \<Rightarrow> bool" where
  "in_atom (Ch x) c = (c = x)"
| "in_atom (OneOf xs) c = (c \<in> set xs)"
| "in_atom (Range lo hi) c = (code lo \<le> code c \<and> code c \<le> code hi)"
| "in_atom Whitespace c = is_space c"
| "in_atom AnyChar c = (c \<noteq> newline)"

text \<open>Under \<open>re.IGNORECASE\<close> a character also matches through its other case.\<close>

definition atom_ok :: "bool \<Rightarrow> atom \<Rightarrow> char \<Rightarrow> bool" where
  "atom_ok ignorecase a c =
     (if ignorecase then in_atom a c \<or> in_atom a (to_lower c) \<or> in_atom a (to_upper c)
      else in_atom a c)"

text \<open>
  \<^verbatim>\<open>\b\<close> holds between a word character and a non-word character or an end of the
  string; \<^verbatim>\<open>$\<close> (without \<open>re.MULTILINE\<close>) holds at the end of the string and
  before a newline that ends it.
\<close>

definition at_boundary :: "string \<Rightarrow> nat \<Rightarrow> bool" where
  "at_boundary s i =
     ((0 < i \<and> i \<le> length s \<and> is_word (s ! (i - 1))) \<noteq> (i < length s \<and> is_word (s ! i)))"

definition at_end :: "string \<Rightarrow> nat \<Rightarrow> bool" where
  "at_end s i = (i = length s \<or> (Suc i = length s \<and> s ! i = newline))"

fun first_some :: "'a option list \<Rightarrow> 'a option" where
  "first_some [] = None"
| "first_some (None # xs) = first_some xs"
| "first_some (Some x # xs) = Some x"

definition run_length :: "bool \<Rightarrow> atom \<Rightarrow> string \<Rightarrow> nat \<Rightarrow> nat" where
  "run_length ic a s i = length (takeWhile (atom_ok ic a) (drop i s))"

text \<open>
  \<open>match_at ic p s i\<close> is the end of the match of the pattern \<open>p\<close> that starts at
  position \<open>i\<close> of \<open>s\<close>, found in the order of a backtracking matcher (a greedy repetition
  tries the longest run first, a lazy one the shortest), or \<open>None\<close>.
\<close>

fun match_at :: "bool \<Rightarrow> item list \<Rightarrow> string \<Rightarrow> nat \<Rightarrow> nat option" where
  "match_at ic [] s i = Some i"
| "match_at ic (Atom a # r) s i =
     (if i < length s \<and> atom_ok ic a (s ! i) then match_at ic r s (Suc i) else None)"
| "match_at ic (WordBoundary # r) s i = (if at_boundary s i then match_at ic r s i else None)"
| "match_at ic (Bos # r) s i = (if i = 0 then match_at ic r s i else None)"
| "match_at ic (Eos # r) s i = (if at_end s i then match_at ic r s i else None)"
| "match_at ic (Star a # r) s i =
     first_some (map (match_at ic r s) (rev [i ..< Suc (i + run_length ic a s i)]))"
| "match_at ic (Plus a # r) s i =
     first_some (map (match_at ic r s) (rev [Suc i ..< Suc (i + run_length ic a s i)]))"
| "match_at ic (LazyStar a # r) s i =
     first_some (map (match_at ic r s) [i ..< Suc (i + run_length ic a s i)])"

text \<open>\<open>re.search\<close>: the leftmost match, as the pair of its start and end, or \<open>None\<close>.\<close>

definition re_search :: "bool \<Rightarrow> item list \<Rightarrow> string \<Rightarrow> (nat \<times> nat) option" where
  "re_search ic p s =
     first_some (map (\<lambda>i. map_option (Pair i) (match_at ic p s i)) [0 ..< Suc (length s)])"

text \<open>
  \<open>re.sub\<close>: every match, from the left and without overlap, is replaced.  The two
  patterns it is called with cannot match the empty string.
\<close>

function sub_from :: "bool \<Rightarrow> item list \<Rightarrow> string \<Rightarrow> string \<Rightarrow> nat \<Rightarrow> string" where
  "sub_from ic p repl s i =
     (if length s < i then []
      else case match_at ic p s i of
             Some j \<Rightarrow>
               if i < j then repl @ sub_from ic p repl s j
               else repl @ (if i < length s then s ! i # sub_from ic p repl s (Suc i) else [])
           | None \<Rightarrow> if i < length s then s ! i # sub_from ic p repl s (Suc i) else [])"
  by pat_completeness auto
termination
  by (relation "measure (\<lambda>(ic, p, repl, s, i). Suc (length s) - i)") auto

declare sub_from.simps [simp del]

definition re_sub :: "bool \<Rightarrow> item list \<Rightarrow> string \<Rightarrow> string \<Rightarrow> string" where
  "re_sub ic p repl s = sub_from ic p repl s 0"

definition lit :: "string \<Rightarrow> item list" where
  "lit w = map (\<lambda>c. Atom (Ch c)) w"


section \<open>command_executor.py\<close>

text \<open>
  \<open>subprocess.run(command, shell=True, capture_output=True, text=True, timeout=...)\<close>
  either returns a completed process (return code, captured standard output and standard
  error, both \<open>str\<close> because of \<open>text=True\<close>), raises \<open>subprocess.TimeoutExpired\<close>, or raises
  another \<open>Exception\<close> whose \<open>str(e)\<close> is recorded.
\<close>

datatype run_outcome =
    Completed int string string
  | TimeoutExpired
  | Raised string

record CommandExecutor =
  timeout :: int

definition CommandExecutor_init :: CommandExecutor where
  "CommandExecutor_init = \<lparr>timeout = 30\<rparr>"

record response_data =
  command :: string
  return_code :: int
  "output" :: string
  error :: string
  success :: bool

definition failed_with :: "int \<Rightarrow> string" where
  "failed_with rc = ''Command failed with return code '' @ str_int rc"

fun execute_command :: "CommandExecutor \<Rightarrow> run_outcome \<Rightarrow> string \<Rightarrow> response_data" where
  "execute_command self (Completed returncode stdout stderr) cmd =
     (let resp = \<lparr>command = cmd,
                  return_code = returncode,
                  output = (if stdout \<noteq> [] then stdout else []),
                  error = (if stderr \<noteq> [] then stderr else []),
                  success = (returncode = 0)\<rparr>
      in if returncode \<noteq> 0 then
           (if stderr \<noteq> [] then resp\<lparr>output := stderr, error := failed_with returncode\<rparr>
            else resp\<lparr>output := failed_with returncode\<rparr>)
         else resp)"
| "execute_command self TimeoutExpired cmd =
     \<lparr>command = cmd,
      return_code = - 1,
      output = ''Command timed out ('' @ str_int (timeout self) @ '' seconds)'',
      error = ''Timeout'',
      success = False\<rparr>"
| "execute_command self (Raised e) cmd =
     \<lparr>command = cmd,
      return_code = - 1,
      output = ''Failed to execute command: '' @ e,
      error = e,
      success = False\<rparr>"

section \<open>gemini_service.py\<close>

text \<open>
  What \<open>requests.post\<close> does: it raises \<open>requests.exceptions.Timeout\<close>, another
  \<open>RequestException\<close> or another \<open>Exception\<close> (each with its \<open>str(e)\<close>), or it returns a
  response with a status code, a body text, and the result of \<open>response.json()\<close>, which
  is itself a parsed document or an exception.
\<close>

datatype exn =
    Timeout
  | RequestException string
  | OtherException string

record http_reply =
  status_code :: int
  "text" :: string
  json_result :: "exn + json"

datatype post_outcome = PostRaised exn | PostReturned http_reply

record GeminiService =
  api_key :: "string option"
  is_configured :: bool

definition GeminiService_init :: "string option \<Rightarrow> GeminiService" where
  "GeminiService_init key = \<lparr>api_key = key, is_configured = (key \<noteq> None)\<rparr>"

subsection \<open>\<open>_clean_command_response\<close>\<close>

text \<open>
  The patterns \<^verbatim>\<open>^```.*?\n\<close> and \<^verbatim>\<open>\n```$\<close>.  Both substitutions are
  applied to \<open>command_text\<close>; the result of the first one is overwritten by the second.
\<close>

definition fence_open :: "item list" where
  "fence_open = [Bos] @ lit ''```'' @ [LazyStar AnyChar] @ lit [newline]"

definition fence_close :: "item list" where
  "fence_close = lit (newline # ''```'') @ [Eos]"

definition clean_command_response :: "string \<Rightarrow> string" where
  "clean_command_response command_text =
     (let command = re_sub False fence_open [] command_text;
          command = re_sub False fence_close [] command_text;
          command = strip command;
          command = strip (hd (split newline command))
      in command)"

subsection \<open>\<open>_is_dangerous_command\<close>\<close>

text \<open>
  The eight patterns, in the order of the source:
  \<^verbatim>\<open>\brm\s+-rf\s+/\<close>, \<^verbatim>\<open>\bformat\b\<close>, \<^verbatim>\<open>\bdel\s+/[sq]\<close>,
  \<^verbatim>\<open>>\s*/dev/sd[a-z]\<close>, \<^verbatim>\<open>\bdd\s+if=.*of=/dev/\<close>,
  \<^verbatim>\<open>\bshutdown\b\<close>, \<^verbatim>\<open>\breboot\b\<close>, \<^verbatim>\<open>\bhalt\b\<close>.
\<close>

definition dangerous_patterns :: "item list list" where
  "dangerous_patterns =
    [ WordBoundary # lit ''rm'' @ [Plus Whitespace] @ lit ''-rf'' @ [Plus Whitespace] @ lit ''/'',
      WordBoundary # lit ''format'' @ [WordBoundary],
      WordBoundary # lit ''del'' @ [Plus Whitespace] @ lit ''/'' @ [Atom (OneOf ''sq'')],
      lit ''>'' @ [Star Whitespace] @ lit ''/dev/sd'' @ [Atom (Range CHR ''a'' CHR ''z'')],
      WordBoundary # lit ''dd'' @ [Plus Whitespace] @ lit ''if='' @ [Star AnyChar] @ lit ''of=/dev/'',
      WordBoundary # lit ''shutdown'' @ [WordBoundary],
      WordBoundary # lit ''reboot'' @ [WordBoundary],
      WordBoundary # lit ''halt'' @ [WordBoundary] ]"

text \<open>The loop over the patterns, each searched with \<open>re.IGNORECASE\<close>.\<close>

fun any_match :: "item list list \<Rightarrow> string \<Rightarrow> bool" where
  "any_match [] cmd = False"
| "any_match (p # ps) cmd = (if re_search True p cmd \<noteq> None then True else any_match ps cmd)"

definition is_dangerous_command :: "string \<Rightarrow> bool" where
  "is_dangerous_command cmd = any_match dangerous_patterns cmd"

subsection \<open>\<open>convert_natural_language_to_command\<close>\<close>

text \<open>
  The function returns the pair \<open>(command, error_message)\<close>.  \<open>try_body\<close> is the body of
  its \<open>try\<close> statement: it returns a pair or raises.  An exception of the interpreter
  (a missing key, an index out of range, a value of the wrong type) reaches the last
  handler as an \<open>Exception\<close>; \<open>describe\<close> gives its \<open>str(e)\<close>, which is the interpreter's
  text and not part of the program.
\<close>

definition and_then :: "'e + 'a \<Rightarrow> ('a \<Rightarrow> 'e + 'b) \<Rightarrow> 'e + 'b" where
  "and_then m f = (case m of Inl e \<Rightarrow> Inl e | Inr v \<Rightarrow> f v)"

definition raised :: "(py_error \<Rightarrow> string) \<Rightarrow> py_error + 'a \<Rightarrow> exn + 'a" where
  "raised describe m = (case m of Inl e \<Rightarrow> Inl (OtherException (describe e)) | Inr v \<Rightarrow> Inr v)"

text \<open>\<open>re.sub\<close> raises \<open>TypeError\<close> on a value that is not a string.\<close>

fun as_str :: "json \<Rightarrow> py_error + string" where
  "as_str (JStr s) = Inr s"
| "as_str v = Inl (TypeError ''re.sub'' v)"

definition rejected :: string where
  "rejected = ''Command rejected for safety reasons.''"

definition no_response :: string where
  "no_response = ''No response from Gemini API''"

type_synonym outcome = "string option \<times> string option"

definition try_body :: "(py_error \<Rightarrow> string) \<Rightarrow> post_outcome \<Rightarrow> exn + outcome" where
  "try_body describe post =
     (case post of
        PostRaised e \<Rightarrow> Inl e
      | PostReturned response \<Rightarrow>
          if status_code response \<noteq> 200 then
            Inr (None, Some (''Gemini API error: '' @ str_int (status_code response)
                               @ '' - '' @ text response))
          else
            and_then (json_result response) (\<lambda>result.
            and_then (raised describe (contains ''candidates'' result)) (\<lambda>has.
            if \<not> has then Inr (None, Some no_response)
            else
            and_then (raised describe (getitem result ''candidates'')) (\<lambda>candidates.
            if \<not> truthy candidates then Inr (None, Some no_response)
            else
            and_then (raised describe (getitem0 candidates)) (\<lambda>candidate.
            and_then (raised describe (getitem candidate ''content'')) (\<lambda>content.
            and_then (raised describe (getitem content ''parts'')) (\<lambda>parts.
            and_then (raised describe (getitem0 parts)) (\<lambda>part.
            and_then (raised describe (getitem part ''text'')) (\<lambda>command_text.
            and_then (raised describe (as_str command_text)) (\<lambda>s.
            let command = clean_command_response s in
            if is_dangerous_command command then Inr (None, Some rejected)
            else Inr (Some command, None)))))))))))"

definition convert_natural_language_to_command ::
  "GeminiService \<Rightarrow> (py_error \<Rightarrow> string) \<Rightarrow> post_outcome \<Rightarrow> string \<Rightarrow> outcome" where
  "convert_natural_language_to_command self describe post query =
     (if \<not> is_configured self then
        (None, Some ''Gemini API is not configured. Please set GEMINI_API_KEY in environment variables.'')
      else case try_body describe post of
             Inr r \<Rightarrow> r
           | Inl Timeout \<Rightarrow> (None, Some ''Gemini API request timed out'')
           | Inl (RequestException e) \<Rightarrow> (None, Some (''Network error: '' @ e))
           | Inl (OtherException e) \<Rightarrow> (None, Some (''Error converting natural language: '' @ e)))"

section \<open>app.py: the route \<open>/natural-language\<close>\<close>

text \<open>
  The handler returns the reply (status and the fields of the JSON body) together with
  the list of the commands it passed to \<open>command_executor.execute_command\<close>.
  \<open>request\<close> is what \<open>request.get_json()\<close> gives: a parsed document, or the text of the
  exception it raised.  \<open>shell\<close> tells how the process invocation of a command ends.
\<close>

record flask_reply =
  status :: nat
  body :: "(string \<times> json) list"

type_synonym handled = "flask_reply \<times> string list"

definition server_error :: "string \<Rightarrow> handled" where
  "server_error e = (\<lparr>status = 500, body = [(''error'', JStr (''Server error: '' @ e))]\<rparr>, [])"

definition bad_request :: "string \<Rightarrow> (string \<times> json) list \<Rightarrow> handled" where
  "bad_request e extra = (\<lparr>status = 400, body = (''error'', JStr e) # extra\<rparr>, [])"

definition run_converted ::
  "CommandExecutor \<Rightarrow> (string \<Rightarrow> run_outcome) \<Rightarrow> string \<Rightarrow> string \<Rightarrow> handled" where
  "run_converted command_executor shell query converted_command =
     (let result = execute_command command_executor (shell converted_command) converted_command
      in (\<lparr>status = 200,
           body = [(''original_query'', JStr query),
                   (''converted_command'', JStr converted_command),
                   (''command'', JStr (command result)),
                   (''return_code'', JNum (return_code result)),
                   (''output'', JStr (output result)),
                   (''error'', JStr (error result)),
                   (''success'', JBool (success result)),
                   (''mode'', JStr ''natural_language'')]\<rparr>,
          [converted_command]))"

text \<open>Lines 72 to 93: an absent or empty command is refused, any other one is executed.\<close>

definition execute_converted ::
  "CommandExecutor \<Rightarrow> (string \<Rightarrow> run_outcome) \<Rightarrow> string \<Rightarrow> string option \<Rightarrow> handled" where
  "execute_converted command_executor shell query converted_command =
     (case converted_command of
        None \<Rightarrow>
          bad_request ''Could not convert query to command''
            [(''original_query'', JStr query), (''mode'', JStr ''natural_language'')]
      | Some c \<Rightarrow>
          if c = [] then
            bad_request ''Could not convert query to command''
              [(''original_query'', JStr query), (''mode'', JStr ''natural_language'')]
          else run_converted command_executor shell query c)"

definition process_natural_language ::
  "GeminiService \<Rightarrow> CommandExecutor \<Rightarrow> (py_error \<Rightarrow> string) \<Rightarrow> post_outcome
     \<Rightarrow> (string \<Rightarrow> run_outcome) \<Rightarrow> string + json \<Rightarrow> handled" where
  "process_natural_language gemini_service command_executor describe post shell request =
     (case request of
        Inl e \<Rightarrow> server_error e
      | Inr data \<Rightarrow>
          if \<not> truthy data then bad_request ''No query provided'' []
          else case contains ''query'' data of
            Inl e \<Rightarrow> server_error (describe e)
          | Inr has \<Rightarrow>
              if \<not> has then bad_request ''No query provided'' []
              else case getitem data ''query'' of
                Inl e \<Rightarrow> server_error (describe e)
              | Inr (JStr q) \<Rightarrow>
                  (let query = strip q in
                   if query = [] then bad_request ''Empty query'' []
                   else case convert_natural_language_to_command gemini_service describe post query of
                     (converted_command, err) \<Rightarrow>
                       (case err of
                          Some e \<Rightarrow>
                            if e \<noteq> [] then
                              bad_request e [(''original_query'', JStr query),
                                             (''mode'', JStr ''natural_language'')]
                            else execute_converted command_executor shell query converted_command
                        | None \<Rightarrow>
                            execute_converted command_executor shell query converted_command))
              | Inr v \<Rightarrow> server_error (describe (AttributeError ''strip'' v)))"

section \<open>Properties of the executor\<close>

lemma str_int_30: "str_int 30 = ''30''"
  by (simp add: str_int_def str_nat.simps digit_char_def)

lemma str_int_1: "str_int 1 = ''1''"
  by (simp add: str_int_def str_nat.simps digit_char_def)

lemma failed_with_nonempty: "failed_with rc \<noteq> []"
  by (simp add: failed_with_def)

text \<open>
  C1.  Whatever the process invocation does (completion with any return code, timeout,
  any other exception), the returned record has \<open>success\<close> true exactly when its
  \<open>return_code\<close> is 0.  After a completion the return code is that of the process; after
  a timeout and after any other exception the return code is -1 and \<open>success\<close> is false.
\<close>

theorem execute_command_success_iff_zero:
  "success (execute_command self oc cmd) = (return_code (execute_command self oc cmd) = 0)
   \<and> return_code (execute_command self (Completed returncode stdout stderr) cmd) = returncode
   \<and> success (execute_command self (Completed returncode stdout stderr) cmd) = (returncode = 0)
   \<and> return_code (execute_command self TimeoutExpired cmd) = - 1
   \<and> success (execute_command self TimeoutExpired cmd) = False
   \<and> return_code (execute_command self (Raised e) cmd) = - 1
   \<and> success (execute_command self (Raised e) cmd) = False"
proof -
  have "success (execute_command self oc cmd) = (return_code (execute_command self oc cmd) = 0)"
    by (cases oc) (simp_all add: Let_def)
  moreover have
    "return_code (execute_command self (Completed returncode stdout stderr) cmd) = returncode"
    "success (execute_command self (Completed returncode stdout stderr) cmd) = (returncode = 0)"
    by (simp_all add: Let_def)
  ultimately show ?thesis by simp
qed

text \<open>
  C2.  As stated (the error text is non-empty exactly when \<open>success\<close> is false) the claim
  fails in both directions.  What the code does: the \<open>error\<close> field is empty exactly when
  the process completed with empty standard error (whatever the return code), or when
  the invocation raised an exception whose description is empty; after a timeout it is
  never empty.
\<close>

theorem execute_command_error_empty_iff:
  "(error (execute_command self oc cmd) = []) =
     (case oc of
        Completed returncode stdout stderr \<Rightarrow> stderr = []
      | TimeoutExpired \<Rightarrow> False
      | Raised e \<Rightarrow> e = [])"
  by (cases oc) (simp_all add: Let_def failed_with_nonempty)

theorem execute_command_error_on_success_counterexample:
  "error (execute_command CommandExecutor_init (Completed 0 ''out'' ''warn'') ''ls'') \<noteq> []
   \<and> success (execute_command CommandExecutor_init (Completed 0 ''out'' ''warn'') ''ls'')"
  by simp

text \<open>
  C3.  When the child process exceeds the 30 second timeout set by the constructor, the
  result has return code -1, the output \<open>Command timed out (30 seconds)\<close>, the error
  \<open>Timeout\<close>, \<open>success\<close> false and the command that was passed in.
\<close>

theorem execute_command_timeout:
  "execute_command CommandExecutor_init TimeoutExpired cmd =
     \<lparr>command = cmd,
      return_code = - 1,
      output = ''Command timed out (30 seconds)'',
      error = ''Timeout'',
      success = False\<rparr>"
  by (simp add: CommandExecutor_init_def str_int_30)

text \<open>
  C4.  As stated, the claim fails when standard error is empty: the \<open>error\<close> field is
  then the empty string, not the fixed message.  What the code does for a return code
  \<open>N \<noteq> 0\<close>: with non-empty standard error, \<open>output\<close> is that text and \<open>error\<close> is
  \<open>Command failed with return code N\<close>; with empty standard error, \<open>output\<close> is that
  message and \<open>error\<close> is empty; \<open>success\<close> is false in both cases.
\<close>

theorem execute_command_nonzero:
  assumes "returncode \<noteq> 0"
  shows "execute_command self (Completed returncode stdout stderr) cmd =
     (if stderr \<noteq> [] then
        \<lparr>command = cmd, return_code = returncode, output = stderr,
         error = ''Command failed with return code '' @ str_int returncode,
         success = False\<rparr>
      else
        \<lparr>command = cmd, return_code = returncode,
         output = ''Command failed with return code '' @ str_int returncode,
         error = [],
         success = False\<rparr>)"
  using assms by (simp add: Let_def failed_with_def)

theorem execute_command_nonzero_witness:
  "execute_command CommandExecutor_init (Completed 1 ''out'' ''no such file'') ''cat x'' =
     \<lparr>command = ''cat x'', return_code = 1, output = ''no such file'',
      error = ''Command failed with return code 1'', success = False\<rparr>"
  using execute_command_nonzero [of 1 CommandExecutor_init "''out''" "''no such file''" "''cat x''"]
  by (simp add: str_int_1)

theorem execute_command_nonzero_empty_stderr_counterexample:
  "error (execute_command CommandExecutor_init (Completed 1 [] []) ''false'') = []
   \<and> error (execute_command CommandExecutor_init (Completed 1 [] []) ''false'')
       \<noteq> ''Command failed with return code 1''"
  by (simp add: Let_def)

text \<open>
  C5.  As stated, the claim fails when a command exits with 0 and has written to
  standard error: that text is not discarded, it is returned in the \<open>error\<close> field.
  What the code does for return code 0: \<open>output\<close> is the captured standard output,
  \<open>error\<close> is the captured standard error (empty exactly when nothing was captured),
  and \<open>success\<close> is true.
\<close>

theorem execute_command_zero:
  "execute_command self (Completed 0 stdout stderr) cmd =
     \<lparr>command = cmd, return_code = 0, output = stdout, error = stderr, success = True\<rparr>"
  by (simp add: Let_def)

theorem execute_command_zero_keeps_stderr_counterexample:
  "error (execute_command CommandExecutor_init (Completed 0 ''done'' ''deprecated flag'') ''tool'')
     = ''deprecated flag''
   \<and> error (execute_command CommandExecutor_init (Completed 0 ''done'' ''deprecated flag'') ''tool'')
     \<noteq> []"
  by (simp add: Let_def)

text \<open>
  C6.  When the process invocation raises any exception other than the timeout, a
  result record is returned (the exception does not propagate): return code -1, the
  output \<open>Failed to execute command: \<close> followed by the exception's description, the
  description itself as error, and \<open>success\<close> false.
\<close>

theorem execute_command_exception:
  "execute_command self (Raised e) cmd =
     \<lparr>command = cmd,
      return_code = - 1,
      output = ''Failed to execute command: '' @ e,
      error = e,
      success = False\<rparr>"
  by simp

section \<open>Properties of the translator and of the safety check\<close>

subsection \<open>Code points and case folding\<close>

lemma code_inj: "code c = code c' \<Longrightarrow> c = c'"
  by (simp add: code_def)


lemma code_char_of: "n < 256 \<Longrightarrow> code (char_of n) = n"
  by (simp add: code_def)

lemma code_to_lower:
  "code (to_lower c) = (if 65 \<le> code c \<and> code c \<le> 90 then code c + 32 else code c)"
  by (simp add: to_lower_def code_char_of)


lemma code_underscore: "code CHR ''_'' = 95"
  by (simp add: code_def)


lemma eq_iff_code: "(c = c') = (code c = code c')"
  using code_inj by auto





lemma is_alnum_to_lower: "is_alnum (to_lower c) = is_alnum c"
  by (simp add: is_alnum_def code_to_lower Let_def)

lemma is_word_to_lower: "is_word (to_lower c) = is_word c"
  by (simp add: is_word_def is_alnum_to_lower eq_iff_code [of _ "CHR ''_''"]
      code_underscore code_to_lower)


subsection \<open>Matching does not depend on the case of the letters\<close>








lemma any_match_member:
  "p \<in> set ps \<Longrightarrow> re_search True p cmd \<noteq> None \<Longrightarrow> any_match ps cmd"
  by (induction ps) auto

subsection \<open>A match as a split of the string\<close>
























lemma any_match_iff: "any_match ps cmd = (\<exists>p\<in>set ps. re_search True p cmd \<noteq> None)"
  by (induction ps) auto

subsection \<open>The whole-word patterns\<close>






















subsection \<open>The patterns with white space and character sets\<close>







lemma word_end_lower:
  "(map to_lower v = [] \<or> \<not> is_word (hd (map to_lower v))) = (v = [] \<or> \<not> is_word (hd v))"
  by (auto simp: hd_map is_word_to_lower)



























text \<open>One command per pattern, in mixed case, and near misses of the whole words.\<close>

lemma is_dangerous_command_examples:
  "is_dangerous_command ''RM   -Rf /''"
  "is_dangerous_command ''Format c:''"
  "is_dangerous_command ''DEL /Q x''"
  "is_dangerous_command ''del /s x''"
  "is_dangerous_command ''echo x >/dev/SDB''"
  "is_dangerous_command ''DD if=/dev/zero bs=1 OF=/dev/sda''"
  "is_dangerous_command ''REBOOT''"
  "is_dangerous_command ''halt''"
  by code_simp+

lemma is_dangerous_command_passes:
  "\<not> is_dangerous_command ''farm -rf /''"
  "\<not> is_dangerous_command ''formatted''"
  "\<not> is_dangerous_command ''asphalt''"
  by code_simp+

subsection \<open>The cleanup of the model's answer\<close>

lemma split_nonempty: "split sep s \<noteq> []"
  by (induction s) (auto split: list.splits)

lemma split_no_sep: "x \<in> set (split sep s) \<Longrightarrow> sep \<notin> set x"
  by (induction s arbitrary: x) (auto split: if_splits list.splits)

lemma strip_subset:
  assumes "x \<in> set (strip s)"
  shows "x \<in> set s"
proof -
  from assms have "x \<in> set (dropWhile is_space (rev (dropWhile is_space s)))"
    by (simp add: strip_def)
  then have "x \<in> set (rev (dropWhile is_space s))"
    by (rule set_dropWhileD)
  then have "x \<in> set (dropWhile is_space s)"
    by simp
  then show ?thesis
    by (rule set_dropWhileD)
qed

lemma clean_command_response_single_line: "newline \<notin> set (clean_command_response t)"
proof
  assume "newline \<in> set (clean_command_response t)"
  then have "newline \<in> set (hd (split newline (strip (re_sub False fence_close [] t))))"
    by (auto simp: clean_command_response_def Let_def dest: strip_subset)
  moreover have "hd (split newline (strip (re_sub False fence_close [] t)))
      \<in> set (split newline (strip (re_sub False fence_close [] t)))"
    by (simp add: split_nonempty)
  ultimately show False
    using split_no_sep by blast
qed

text \<open>
  C9.  For an answer wrapped in a code fence the cleanup returns the opening fence
  marker, not the command inside the fence: the answer \<open>```bash\<close>, newline, \<open>ls -la\<close>,
  newline, \<open>```\<close> is cleaned to \<open>```bash\<close>.
\<close>

theorem clean_command_response_fenced:
  "clean_command_response (''```bash'' @ [newline] @ ''ls -la'' @ [newline] @ ''```'') = ''```bash''"
  by code_simp

subsection \<open>The outcome of the translation\<close>

lemma try_body_shape:
  assumes "try_body describe post = Inr (c, e)"
  shows "(c \<noteq> None \<and> e = None) \<or> (c = None \<and> e \<noteq> None \<and> e \<noteq> Some [])"
  using assms
  by (auto simp: try_body_def and_then_def raised_def Let_def rejected_def no_response_def
           split: post_outcome.splits sum.splits if_splits)

text \<open>
  C10.  As stated, the claim fails: when the cleaned answer of the model is empty, the
  function returns the empty command with no error.  What the code does: it returns
  either a command (possibly the empty string) with no error, or a non-empty error
  reason with no command, never both and never neither.
\<close>

theorem convert_command_or_error:
  "(\<exists>c. convert_natural_language_to_command self describe post query = (Some c, None))
   \<or> (\<exists>e. e \<noteq> [] \<and>
          convert_natural_language_to_command self describe post query = (None, Some e))"
proof (cases "is_configured self")
  case False
  then show ?thesis by (simp add: convert_natural_language_to_command_def)
next
  case True
  show ?thesis
  proof (cases "try_body describe post")
    case (Inl x)
    with True show ?thesis
      by (cases x) (simp_all add: convert_natural_language_to_command_def)
  next
    case (Inr r)
    obtain c e where r: "r = (c, e)" by (cases r)
    from try_body_shape [of describe post c e] Inr r True show ?thesis
      by (auto simp: convert_natural_language_to_command_def)
  qed
qed

theorem convert_empty_command_counterexample:
  "convert_natural_language_to_command (GeminiService_init (Some ''key'')) (\<lambda>e. [])
     (PostReturned \<lparr>status_code = 200, text = [],
        json_result = Inr (JObj [(''candidates'',
          JArr [JObj [(''content'', JObj [(''parts'', JArr [JObj [(''text'', JStr ''   '')]])])]])])\<rparr>)
     ''do nothing'' = (Some [], None)"
  by code_simp

lemma try_body_dangerous:
  assumes "contains ''candidates'' result = Inr True"
    and "getitem result ''candidates'' = Inr candidates"
    and "truthy candidates"
    and "getitem0 candidates = Inr candidate"
    and "getitem candidate ''content'' = Inr content"
    and "getitem content ''parts'' = Inr parts"
    and "getitem0 parts = Inr part"
    and "getitem part ''text'' = Inr (JStr command_text)"
    and "is_dangerous_command (clean_command_response command_text)"
  shows "try_body describe (PostReturned \<lparr>status_code = 200, text = t, json_result = Inr result\<rparr>)
           = Inr (None, Some rejected)"
  using assms by (simp add: try_body_def and_then_def raised_def)

text \<open>
  C8.  When the answer of the model yields a candidate command (the cleaned text at
  \<open>candidates[0].content.parts[0].text\<close> of a reply with status 200) on which the
  safety check returns true, the translation returns no command and the reason
  \<open>Command rejected for safety reasons.\<close>, and the handler of a request with a
  non-empty query answers with status 400 and that reason, having passed no command to
  the executor.
\<close>

theorem dangerous_candidate_rejected:
  assumes "is_configured gemini_service"
    and "contains ''candidates'' result = Inr True"
    and "getitem result ''candidates'' = Inr candidates"
    and "truthy candidates"
    and "getitem0 candidates = Inr candidate"
    and "getitem candidate ''content'' = Inr content"
    and "getitem content ''parts'' = Inr parts"
    and "getitem0 parts = Inr part"
    and "getitem part ''text'' = Inr (JStr command_text)"
    and "is_dangerous_command (clean_command_response command_text)"
    and "truthy data"
    and "contains ''query'' data = Inr True"
    and "getitem data ''query'' = Inr (JStr q)"
    and "strip q \<noteq> []"
  shows "convert_natural_language_to_command gemini_service describe
           (PostReturned \<lparr>status_code = 200, text = t, json_result = Inr result\<rparr>) (strip q)
           = (None, Some ''Command rejected for safety reasons.'')
         \<and> process_natural_language gemini_service command_executor describe
             (PostReturned \<lparr>status_code = 200, text = t, json_result = Inr result\<rparr>) shell (Inr data)
           = (\<lparr>status = 400,
               body = [(''error'', JStr ''Command rejected for safety reasons.''),
                       (''original_query'', JStr (strip q)),
                       (''mode'', JStr ''natural_language'')]\<rparr>, [])"
proof -
  have conv: "convert_natural_language_to_command gemini_service describe
           (PostReturned \<lparr>status_code = 200, text = t, json_result = Inr result\<rparr>) x
           = (None, Some ''Command rejected for safety reasons.'')" for x
    using assms(1) try_body_dangerous [OF assms(2-10), of describe t]
    by (simp add: convert_natural_language_to_command_def rejected_def)
  show ?thesis
    using assms(11-14)
    by (simp add: conv process_natural_language_def bad_request_def Let_def)
qed

theorem dangerous_candidate_rejected_witness:
  "convert_natural_language_to_command (GeminiService_init (Some ''key'')) (\<lambda>e. [])
     (PostReturned \<lparr>status_code = 200, text = [],
        json_result = Inr (JObj [(''candidates'',
          JArr [JObj [(''content'',
            JObj [(''parts'', JArr [JObj [(''text'', JStr ''rm -rf /'')]])])]])])\<rparr>)
     (strip '' wipe the disk '')
     = (None, Some ''Command rejected for safety reasons.'')
   \<and> process_natural_language (GeminiService_init (Some ''key'')) CommandExecutor_init (\<lambda>e. [])
       (PostReturned \<lparr>status_code = 200, text = [],
          json_result = Inr (JObj [(''candidates'',
            JArr [JObj [(''content'',
              JObj [(''parts'', JArr [JObj [(''text'', JStr ''rm -rf /'')]])])]])])\<rparr>)
       (\<lambda>c. Completed 0 [] []) (Inr (JObj [(''query'', JStr '' wipe the disk '')]))
     = (\<lparr>status = 400,
         body = [(''error'', JStr ''Command rejected for safety reasons.''),
                 (''original_query'', JStr (strip '' wipe the disk '')),
                 (''mode'', JStr ''natural_language'')]\<rparr>, [])"
proof -
  let ?part = "JObj [(''text'', JStr ''rm -rf /'')]"
  let ?parts = "JArr [?part]"
  let ?content = "JObj [(''parts'', ?parts)]"
  let ?candidate = "JObj [(''content'', ?content)]"
  let ?candidates = "JArr [?candidate]"
  let ?result = "JObj [(''candidates'', ?candidates)]"
  let ?data = "JObj [(''query'', JStr '' wipe the disk '')]"
  have h1: "is_configured (GeminiService_init (Some ''key''))"
    by (simp add: GeminiService_init_def)
  have h2: "contains ''candidates'' ?result = Inr True" by simp
  have h3: "getitem ?result ''candidates'' = Inr ?candidates" by simp
  have h4: "truthy ?candidates" by simp
  have h5: "getitem0 ?candidates = Inr ?candidate" by simp
  have h6: "getitem ?candidate ''content'' = Inr ?content" by simp
  have h7: "getitem ?content ''parts'' = Inr ?parts" by simp
  have h8: "getitem0 ?parts = Inr ?part" by simp
  have h9: "getitem ?part ''text'' = Inr (JStr ''rm -rf /'')" by simp
  have h10: "is_dangerous_command (clean_command_response ''rm -rf /'')"
    by code_simp
  have h11: "truthy ?data" by simp
  have h12: "contains ''query'' ?data = Inr True" by simp
  have h13: "getitem ?data ''query'' = Inr (JStr '' wipe the disk '')" by simp
  have h14: "strip '' wipe the disk '' \<noteq> []"
    by code_simp
  show ?thesis
    by (rule dangerous_candidate_rejected [OF h1 h2 h3 h4 h5 h6 h7 h8 h9 h10 h11 h12 h13 h14])
qed

end
